theory Spec2Isabelle
  imports Complex_Main
begin

section \<open>Persisted tables\<close>

text \<open>
  The handlers of the SkillSwap server talk to SQLite through SQL strings. A table is
  modelled as the list of its rows in rowid order, and each row as a record holding
  columns of the table as the schema declares it: those that the modelled handlers read
  or write. Row identifiers are natural numbers; timestamps
  (\<^verbatim>\<open>datetime('now')\<close>, \<^verbatim>\<open>CURRENT_TIMESTAMP\<close>) are the clock reading that the handler is
  given as the argument \<open>now\<close>. A BOOLEAN column is a \<open>bool\<close>, a nullable column an
  \<open>option\<close>.
\<close>

record user =
  u_id :: nat
  u_email :: string
  u_fullName :: string
  u_rating :: rat
  u_isAdmin :: bool
  u_updatedAt :: nat

record skill =
  sk_id :: nat
  sk_userId :: nat
  sk_name :: string
  sk_description :: "string option"
  sk_proficiency :: string
  sk_isOffering :: bool
  sk_isSeeking :: bool
  sk_updatedAt :: nat

record swap_request =
  sr_id :: nat
  sr_requesterId :: nat
  sr_skillOfferedId :: nat
  sr_skillRequestedId :: nat
  sr_status :: string
  sr_message :: "string option"
  sr_completedAt :: "nat option"
  sr_ratingByRequester :: "int option"
  sr_ratingByReceiver :: "int option"
  sr_feedbackByRequester :: "string option"
  sr_feedbackByReceiver :: "string option"
  sr_createdAt :: nat
  sr_updatedAt :: nat

record rating =
  rt_id :: nat
  rt_userId :: nat
  rt_raterId :: nat
  rt_rating :: int
  rt_comment :: "string option"
  rt_createdAt :: nat
  rt_updatedAt :: nat

text \<open>
  \<open>swap_requests_seq\<close> and \<open>ratings_seq\<close> are the rows of \<^verbatim>\<open>sqlite_sequence\<close> for the two
  AUTOINCREMENT tables that the handlers insert into.
\<close>

record database =
  users :: "user list"
  skills :: "skill list"
  swap_requests :: "swap_request list"
  ratings :: "rating list"
  swap_requests_seq :: nat
  ratings_seq :: nat

text \<open>
  An AUTOINCREMENT key is one more than the largest key the table has ever held: the
  larger of the recorded sequence value and the largest key present.
\<close>

definition next_rowid :: "nat \<Rightarrow> nat list \<Rightarrow> nat" where
  "next_rowid seq ids = Suc (fold max ids seq)"

section \<open>The schema\<close>

text \<open>
  The tables are created by \<^verbatim>\<open>init.sql\<close> and, with the same columns, by \<^verbatim>\<open>createTables\<close> and
  migration \<^verbatim>\<open>001_create_ratings_table\<close>; no handler alters them. The columns of the four
  tables that the modelled handlers read and write, as declared there:
\<close>

definition users_columns :: "string list" where
  "users_columns =
     [''id'', ''username'', ''email'', ''password'', ''fullName'', ''bio'', ''location'',
      ''profilePicture'', ''rating'', ''isAdmin'', ''createdAt'', ''updatedAt'']"

definition skills_columns :: "string list" where
  "skills_columns =
     [''id'', ''userId'', ''name'', ''description'', ''category'', ''proficiency'',
      ''isOffering'', ''isSeeking'', ''createdAt'', ''updatedAt'']"

definition swap_requests_columns :: "string list" where
  "swap_requests_columns =
     [''id'', ''requesterId'', ''skillOfferedId'', ''skillRequestedId'', ''status'',
      ''message'', ''proposedTime'', ''proposedLocation'', ''completedAt'',
      ''ratingByRequester'', ''ratingByReceiver'', ''feedbackByRequester'',
      ''feedbackByReceiver'', ''createdAt'', ''updatedAt'']"

definition ratings_columns :: "string list" where
  "ratings_columns =
     [''id'', ''userId'', ''raterId'', ''rating'', ''comment'', ''createdAt'', ''updatedAt'']"

text \<open>
  SQLite compiles a statement before it runs it, whatever rows the table holds: a
  statement that names a column its table does not have is refused with \<^verbatim>\<open>SQLITE_ERROR\<close>,
  and \<^verbatim>\<open>db.get\<close>, \<^verbatim>\<open>db.all\<close> and \<^verbatim>\<open>db.run\<close> throw. \<open>prepare\<close> says whether the columns that a
  statement names are all columns of the table. Where it lets a statement through, the
  statement reads and writes the fields of the row records, which are columns of the
  table.
\<close>

datatype sqlite_error = SQLITE_ERROR

definition prepare :: "string list \<Rightarrow> string list \<Rightarrow> bool" where
  "prepare columns named = list_all (\<lambda>c. c \<in> set columns) named"

section \<open>Responses\<close>

text \<open>
  Every \<^verbatim>\<open>return res.status(...).json({ error: ... })\<close> of the routers is one constructor;
  \<open>http_status\<close> gives the status code the source sends with it. A handler returns its
  response together with the database it leaves behind.
\<close>

datatype error =
    NotAuthenticated
  | MissingRequiredFields
  | InvalidOfferedSkill
  | InvalidWantedSkill
  | DuplicatePendingRequest
  | InvalidStatus
  | SwapRequestNotFound
  | OnlyProviderCanAcceptOrReject
  | CannotAcceptOrRejectOwnRequest
  | CannotCancelThisRequest
  | OnlyRequesterCanCancel
  | OnlyRequesterOrProviderCanComplete
  | RequestedSkillNotFound
  | NotAuthorizedToUpdate
  | OnlyPendingCanBeDeleted
  | CompletedSwapNotFound
  | NotPartOfThisSwap
  | AlreadyRated
  | ValidationFailed
  | SkillNotFound
  | AdminAccessRequired
  | InternalServerError

fun http_status :: "error \<Rightarrow> nat" where
  "http_status NotAuthenticated = 401"
| "http_status MissingRequiredFields = 400"
| "http_status InvalidOfferedSkill = 400"
| "http_status InvalidWantedSkill = 400"
| "http_status DuplicatePendingRequest = 400"
| "http_status InvalidStatus = 400"
| "http_status SwapRequestNotFound = 404"
| "http_status OnlyProviderCanAcceptOrReject = 403"
| "http_status CannotAcceptOrRejectOwnRequest = 403"
| "http_status CannotCancelThisRequest = 400"
| "http_status OnlyRequesterCanCancel = 403"
| "http_status OnlyRequesterOrProviderCanComplete = 403"
| "http_status RequestedSkillNotFound = 404"
| "http_status NotAuthorizedToUpdate = 403"
| "http_status OnlyPendingCanBeDeleted = 400"
| "http_status CompletedSwapNotFound = 404"
| "http_status NotPartOfThisSwap = 403"
| "http_status AlreadyRated = 400"
| "http_status ValidationFailed = 400"
| "http_status SkillNotFound = 404"
| "http_status AdminAccessRequired = 403"
| "http_status InternalServerError = 500"

text \<open>
  The \<^verbatim>\<open>allowedActions\<close> field of a response body; only the provider's attempt to cancel
  carries one.
\<close>

fun allowedActions :: "error \<Rightarrow> string list" where
  "allowedActions CannotCancelThisRequest = [''rejected'']"
| "allowedActions _ = []"

section \<open>Swap requests router\<close>

subsection \<open>POST /: create a swap request\<close>



subsection \<open>PUT /:id/status: update the status\<close>

text \<open>
  The handler's first query joins \<^verbatim>\<open>swap_requests\<close> with \<^verbatim>\<open>skills\<close> on the requested skill
  and keeps the request's row with the skill's owner as \<^verbatim>\<open>skillOwnerId\<close>; \<^verbatim>\<open>db.get\<close>
  returns the first row of the join, if any. Both keys are primary keys, so the join has
  at most one row for a given request.
\<close>

definition get_swap_with_owner :: "database \<Rightarrow> nat \<Rightarrow> (swap_request \<times> skill) option" where
  "get_swap_with_owner db swapRequestId =
     find (\<lambda>(sr, s). sr_skillRequestedId sr = sk_id s \<and> sr_id sr = swapRequestId)
          (List.product (swap_requests db) (skills db))"

text \<open>
  The two UPDATE statements inside the transaction: the first sets the status and the
  update time of the rows with the given id, the second stamps \<^verbatim>\<open>completedAt\<close> when the
  new status is \<^verbatim>\<open>completed\<close>.
\<close>

definition set_status :: "swap_request list \<Rightarrow> nat \<Rightarrow> string \<Rightarrow> nat \<Rightarrow> swap_request list" where
  "set_status rows swapRequestId status now =
     (let rows1 = map (\<lambda>r. if sr_id r = swapRequestId
                              then r\<lparr>sr_status := status, sr_updatedAt := now\<rparr> else r) rows
      in if status = ''completed''
         then map (\<lambda>r. if sr_id r = swapRequestId
                         then r\<lparr>sr_completedAt := Some now\<rparr> else r) rows1
         else rows1)"

definition commit_status :: "database \<Rightarrow> nat \<Rightarrow> string \<Rightarrow> nat \<Rightarrow> (error + string) \<times> database" where
  "commit_status db swapRequestId status now =
     (Inr (''Swap request '' @ status @ '' successfully''),
      db\<lparr>swap_requests := set_status (swap_requests db) swapRequestId status now\<rparr>)"

definition update_swap_status ::
    "database \<Rightarrow> nat \<Rightarrow> nat \<Rightarrow> string \<Rightarrow> nat \<Rightarrow> (error + string) \<times> database" where
  "update_swap_status db user swapRequestId status now =
    (if status \<notin> set [''accepted'', ''rejected'', ''completed'', ''cancelled'']
     then (Inl InvalidStatus, db)
     else case get_swap_with_owner db swapRequestId of
       None \<Rightarrow> (Inl SwapRequestNotFound, db)
     | Some (swapRequest, s) \<Rightarrow>
        let skillOwnerId = sk_userId s in
        if status \<in> set [''accepted'', ''rejected''] then
          if skillOwnerId \<noteq> user then (Inl OnlyProviderCanAcceptOrReject, db)
          else if sr_requesterId swapRequest = user then (Inl CannotAcceptOrRejectOwnRequest, db)
          else commit_status db swapRequestId status now
        else if status = ''cancelled'' then
          if sr_requesterId swapRequest \<noteq> user then
            if skillOwnerId = user then (Inl CannotCancelThisRequest, db)
            else (Inl OnlyRequesterCanCancel, db)
          else commit_status db swapRequestId status now
        else if status = ''completed'' then
          if sr_requesterId swapRequest \<noteq> user \<and> skillOwnerId \<noteq> user
          then (Inl OnlyRequesterOrProviderCanComplete, db)
          else commit_status db swapRequestId status now
        else commit_status db swapRequestId status now)"

subsection \<open>DELETE /:id: delete a swap request\<close>

definition delete_swap :: "database \<Rightarrow> nat \<Rightarrow> nat \<Rightarrow> (error + string) \<times> database" where
  "delete_swap db user swapRequestId =
    (case find (\<lambda>r. sr_id r = swapRequestId) (swap_requests db) of
       None \<Rightarrow> (Inl SwapRequestNotFound, db)
     | Some swapRequest \<Rightarrow>
        (case find (\<lambda>s. sk_id s = sr_skillRequestedId swapRequest) (skills db) of
           None \<Rightarrow> (Inl RequestedSkillNotFound, db)
         | Some providerSkill \<Rightarrow>
            if sk_userId providerSkill \<noteq> user \<and> sr_requesterId swapRequest \<noteq> user
            then (Inl NotAuthorizedToUpdate, db)
            else (case find (\<lambda>r. sr_id r = swapRequestId) (swap_requests db) of
                    None \<Rightarrow> (Inl SwapRequestNotFound, db)
                  | Some swapRequestStatus \<Rightarrow>
                     if sr_status swapRequestStatus \<noteq> ''pending''
                     then (Inl OnlyPendingCanBeDeleted, db)
                     else (Inr ''Swap request deleted successfully'',
                           db\<lparr>swap_requests :=
                                filter (\<lambda>r. sr_id r \<noteq> swapRequestId) (swap_requests db)\<rparr>))))"

section \<open>Ratings router\<close>

text \<open>
  The body has passed \<^verbatim>\<open>validateBody(ratingSchema)\<close>: \<open>rb_rating\<close> is an integer (the schema
  admits 1 to 5) and \<open>rb_feedback\<close> an optional string. \<^verbatim>\<open>feedback || null\<close> stores NULL for a
  missing and for an empty feedback.
\<close>

record rating_body =
  rb_rating :: int
  rb_feedback :: "string option"

definition or_null :: "string option \<Rightarrow> string option" where
  "or_null feedback = (case feedback of None \<Rightarrow> None | Some t \<Rightarrow> if t = [] then None else Some t)"

subsection \<open>Doubles\<close>

text \<open>
  SQLite's \<^verbatim>\<open>AVG\<close> returns, and a JavaScript number is, an IEEE 754 double. A double is
  modelled by the rational number it stands for. \<open>to_double\<close> rounds a rational to the
  nearest double: to 53 significant binary digits, a tie going to the even significand.
  It covers the normal range, which the averages of ratings do not leave; infinities,
  NaN and subnormal numbers are not modelled.
\<close>

fun bitlen :: "nat \<Rightarrow> nat" where
  "bitlen n = (if n = 0 then 0 else Suc (bitlen (n div 2)))"

declare bitlen.simps [simp del]

text \<open>The binary exponent of a positive rational: \<open>2 ^ ilog2 y \<le> y < 2 ^ (ilog2 y + 1)\<close>.\<close>

definition ilog2 :: "rat \<Rightarrow> int" where
  "ilog2 y = (if 1 \<le> y then int (bitlen (nat \<lfloor>y\<rfloor>)) - 1
              else - int (bitlen (nat (\<lceil>1 / y\<rceil> - 1))))"

definition round_half_even :: "rat \<Rightarrow> int" where
  "round_half_even q =
     (let f = \<lfloor>q\<rfloor>; d = q - of_int f
      in if d < 1 / 2 then f else if 1 / 2 < d then f + 1 else if even f then f else f + 1)"

definition to_double :: "rat \<Rightarrow> rat" where
  "to_double x =
     (if x = 0 then 0
      else let ulp = power_int 2 (ilog2 \<bar>x\<bar> - 52)
           in sgn x * of_int (round_half_even (\<bar>x\<bar> / ulp)) * ulp)"

text \<open>
  \<^verbatim>\<open>AVG(rating)\<close> is NULL over no rows; otherwise it is the sum of the integers, which is
  exact below \<open>2 ^ 53\<close>, divided by their number in double arithmetic: the double nearest
  to the quotient.
\<close>

definition AVG :: "int list \<Rightarrow> rat option" where
  "AVG xs = (if xs = [] then None
             else Some (to_double (of_int (sum_list xs) / of_nat (length xs))))"

definition ratings_of :: "database \<Rightarrow> nat \<Rightarrow> int list" where
  "ratings_of db userId = map rt_rating (filter (\<lambda>r. rt_userId r = userId) (ratings db))"

subsection \<open>updateUserAverageRating\<close>

text \<open>
  The SELECT names \<^verbatim>\<open>rating\<close> and \<^verbatim>\<open>userId\<close> of \<^verbatim>\<open>ratings\<close>, the UPDATE \<^verbatim>\<open>rating\<close>, \<^verbatim>\<open>updatedAt\<close>
  and \<^verbatim>\<open>id\<close> of \<^verbatim>\<open>users\<close>. \<^verbatim>\<open>result.averageRating || 0\<close>: NULL and \<open>0\<close> both give \<open>0\<close>.
\<close>

definition updateUserAverageRating :: "database \<Rightarrow> nat \<Rightarrow> nat \<Rightarrow> sqlite_error + database" where
  "updateUserAverageRating db userId now =
     (if \<not> prepare ratings_columns [''rating'', ''userId''] then Inl SQLITE_ERROR
      else
        let averageRating = AVG (ratings_of db userId)
        in if \<not> prepare users_columns [''rating'', ''updatedAt'', ''id''] then Inl SQLITE_ERROR
           else Inr (db\<lparr>users :=
                  map (\<lambda>u. if u_id u = userId
                            then u\<lparr>u_rating := (case averageRating of None \<Rightarrow> 0
                                                  | Some a \<Rightarrow> if a = 0 then 0 else a),
                                   u_updatedAt := now\<rparr>
                            else u) (users db)\<rparr>))"

subsection \<open>POST /swap/:swapId: add a rating for a completed swap\<close>

text \<open>
  The integer columns of a \<^verbatim>\<open>ratings\<close> row by name, for a condition on a column that is
  given by its name only; a name that is no column of the table has no value.
\<close>

definition rating_column :: "rating \<Rightarrow> string \<Rightarrow> int option" where
  "rating_column r c =
     (if c = ''id'' then Some (int (rt_id r))
      else if c = ''userId'' then Some (int (rt_userId r))
      else if c = ''raterId'' then Some (int (rt_raterId r))
      else if c = ''rating'' then Some (rt_rating r)
      else None)"

text \<open>
  \<^verbatim>\<open>SELECT id, userId FROM ratings WHERE swapId = ? AND raterId = ?\<close>, the first row if any.
\<close>

definition get_existing_rating :: "database \<Rightarrow> nat \<Rightarrow> nat \<Rightarrow> sqlite_error + rating option" where
  "get_existing_rating db swapId user =
     (if \<not> prepare ratings_columns [''id'', ''userId'', ''swapId'', ''raterId'']
      then Inl SQLITE_ERROR
      else Inr (find (\<lambda>r. rating_column r ''swapId'' = Some (int swapId)
                           \<and> rating_column r ''raterId'' = Some (int user)) (ratings db)))"

text \<open>\<^verbatim>\<open>UPDATE ratings SET rating = ?, comment = ?, updatedAt = ... WHERE id = ?\<close>\<close>

definition update_rating :: "database \<Rightarrow> nat \<Rightarrow> rating_body \<Rightarrow> nat \<Rightarrow> sqlite_error + database" where
  "update_rating db ratingId body now =
     (if \<not> prepare ratings_columns [''rating'', ''comment'', ''updatedAt'', ''id'']
      then Inl SQLITE_ERROR
      else Inr (db\<lparr>ratings :=
             map (\<lambda>r. if rt_id r = ratingId
                       then r\<lparr>rt_rating := rb_rating body,
                              rt_comment := or_null (rb_feedback body),
                              rt_updatedAt := now\<rparr>
                       else r) (ratings db)\<rparr>))"

text \<open>
  \<^verbatim>\<open>INSERT INTO ratings (swapId, raterId, userId, rating, comment, createdAt, updatedAt)\<close>
\<close>

definition insert_rating ::
    "database \<Rightarrow> nat \<Rightarrow> nat \<Rightarrow> nat \<Rightarrow> rating_body \<Rightarrow> nat \<Rightarrow> sqlite_error + database" where
  "insert_rating db swapId user ratedId body now =
     (if \<not> prepare ratings_columns
              [''swapId'', ''raterId'', ''userId'', ''rating'', ''comment'', ''createdAt'',
               ''updatedAt'']
      then Inl SQLITE_ERROR
      else
        let lastID = next_rowid (ratings_seq db) (map rt_id (ratings db))
        in Inr (db\<lparr>ratings := ratings db @
                  [\<lparr>rt_id = lastID, rt_userId = ratedId, rt_raterId = user,
                    rt_rating = rb_rating body, rt_comment = or_null (rb_feedback body),
                    rt_createdAt = now, rt_updatedAt = now\<rparr>],
                ratings_seq := lastID\<rparr>))"

text \<open>
  \<^verbatim>\<open>UPDATE swap_requests SET ratingByRequester = ?, feedbackByRequester = ?, updatedAt = ...\<close>
  \<^verbatim>\<open>WHERE id = ?\<close>, or the same with the receiver's two columns.
\<close>

definition record_rating_on_swap ::
    "database \<Rightarrow> bool \<Rightarrow> nat \<Rightarrow> rating_body \<Rightarrow> nat \<Rightarrow> sqlite_error + database" where
  "record_rating_on_swap db byRequester swapId body now =
     (if \<not> prepare swap_requests_columns
              (if byRequester then [''ratingByRequester'', ''feedbackByRequester'', ''updatedAt'', ''id'']
               else [''ratingByReceiver'', ''feedbackByReceiver'', ''updatedAt'', ''id''])
      then Inl SQLITE_ERROR
      else Inr (db\<lparr>swap_requests :=
             map (\<lambda>r. if sr_id r = swapId
                       then (if byRequester
                             then r\<lparr>sr_ratingByRequester := Some (rb_rating body),
                                    sr_feedbackByRequester := or_null (rb_feedback body),
                                    sr_updatedAt := now\<rparr>
                             else r\<lparr>sr_ratingByReceiver := Some (rb_rating body),
                                    sr_feedbackByReceiver := or_null (rb_feedback body),
                                    sr_updatedAt := now\<rparr>)
                       else r) (swap_requests db)\<rparr>))"

text \<open>
  The handler. Its statements run one after the other with no transaction around them;
  whatever one of them throws is caught at the end of the handler and answered with 500,
  the writes made before it staying in place.
\<close>

definition submit_rating ::
    "database \<Rightarrow> nat \<Rightarrow> nat \<Rightarrow> rating_body \<Rightarrow> nat \<Rightarrow> (error + string) \<times> database" where
  "submit_rating db user swapId body now =
    (if \<not> prepare swap_requests_columns [''id'', ''status''] then (Inl InternalServerError, db)
     else
      case find (\<lambda>r. sr_id r = swapId \<and> sr_status r = ''completed'') (swap_requests db) of
        None \<Rightarrow> (Inl CompletedSwapNotFound, db)
      | Some swapRequest \<Rightarrow>
         if \<not> prepare skills_columns [''userId'', ''id''] then (Inl InternalServerError, db)
         else
          (case find (\<lambda>s. sk_id s = sr_skillRequestedId swapRequest) (skills db) of
             None \<Rightarrow> (Inl RequestedSkillNotFound, db)
           | Some skillOwner \<Rightarrow>
              if sr_requesterId swapRequest \<noteq> user \<and> sk_userId skillOwner \<noteq> user
              then (Inl NotPartOfThisSwap, db)
              else
                let ratedId = (if sr_requesterId swapRequest = user
                               then sk_userId skillOwner else sr_requesterId swapRequest)
                in case get_existing_rating db swapId user of
                     Inl _ \<Rightarrow> (Inl InternalServerError, db)
                   | Inr existingRating \<Rightarrow>
                      (case (case existingRating of
                               Some e \<Rightarrow> update_rating db (rt_id e) body now
                             | None \<Rightarrow> insert_rating db swapId user ratedId body now) of
                         Inl _ \<Rightarrow> (Inl InternalServerError, db)
                       | Inr db1 \<Rightarrow>
                          (case record_rating_on_swap db1 (user = sr_requesterId swapRequest)
                                  swapId body now of
                             Inl _ \<Rightarrow> (Inl InternalServerError, db1)
                           | Inr db2 \<Rightarrow>
                              (case updateUserAverageRating db2 ratedId now of
                                 Inl _ \<Rightarrow> (Inl InternalServerError, db2)
                               | Inr db3 \<Rightarrow> (Inr ''Rating added successfully'', db3))))))"

text \<open>
  The repository holds an older copy of this handler, which reads and updates a table
  \<^verbatim>\<open>swaps\<close> and answers an existing rating with 400 (\<open>AlreadyRated\<close>). No schema of the
  repository creates a table of that name, so its first statement is refused; it is not
  modelled.
\<close>

subsection \<open>GET /user/:userId: the aggregate of a user's ratings\<close>

text \<open>
  \<^verbatim>\<open>x.toFixed(1)\<close> writes the multiple of one tenth nearest to the number that the double \<open>x\<close>
  stands for, the larger one of two equally near; \<open>toFixed1\<close> is the number so written,
  which is what the JSON of the response shows.
\<close>

definition toFixed1 :: "rat \<Rightarrow> rat" where
  "toFixed1 x = of_int \<lfloor>x * 10 + 1 / 2\<rfloor> / 10"



section \<open>Skills router\<close>

text \<open>
  \<^verbatim>\<open>validateBody(skillSchema)\<close> runs before the PUT handler. A field of the raw body is
  \<open>None\<close> when it is missing; a field that is present with another type than a string fails
  the schema as a too short name does. The parsed body is what the handler reads.
\<close>

record raw_skill_body =
  raw_name :: "string option"
  raw_type :: "string option"
  raw_description :: "string option"
  raw_proficiency_level :: "string option"

record skill_body =
  sb_name :: string
  sb_type :: string
  sb_description :: "string option"
  sb_proficiency_level :: string

definition skillSchema :: "raw_skill_body \<Rightarrow> skill_body option" where
  "skillSchema raw =
     (case (raw_name raw, raw_type raw) of
        (Some n, Some t) \<Rightarrow>
          if 2 \<le> length n \<and> t \<in> set [''offered'', ''wanted'']
             \<and> (case raw_proficiency_level raw of
                   None \<Rightarrow> True
                 | Some l \<Rightarrow> l \<in> set [''beginner'', ''intermediate'', ''advanced'', ''expert''])
          then Some \<lparr>sb_name = n, sb_type = t, sb_description = raw_description raw,
                     sb_proficiency_level =
                       (case raw_proficiency_level raw of
                          None \<Rightarrow> ''intermediate'' | Some l \<Rightarrow> l)\<rparr>
          else None
      | _ \<Rightarrow> None)"

subsection \<open>PUT /:id: update a skill\<close>

definition update_skill ::
    "database \<Rightarrow> nat \<Rightarrow> nat \<Rightarrow> skill_body \<Rightarrow> nat \<Rightarrow> (error + string) \<times> database" where
  "update_skill db user skillId body now =
    (case find (\<lambda>s. sk_id s = skillId \<and> sk_userId s = user) (skills db) of
       None \<Rightarrow> (Inl SkillNotFound, db)
     | Some _ \<Rightarrow>
        let isOffering = (sb_type body = ''offered'');
            isSeeking = (sb_type body = ''wanted'')
        in (Inr ''Skill updated successfully'',
            db\<lparr>skills :=
                 map (\<lambda>s. if sk_id s = skillId \<and> sk_userId s = user
                           then s\<lparr>sk_name := sb_name body, sk_isOffering := isOffering,
                                  sk_isSeeking := isSeeking,
                                  sk_description := or_null (sb_description body),
                                  sk_proficiency := sb_proficiency_level body,
                                  sk_updatedAt := now\<rparr>
                           else s) (skills db)\<rparr>))"

definition put_skill ::
    "database \<Rightarrow> nat \<Rightarrow> nat \<Rightarrow> raw_skill_body \<Rightarrow> nat \<Rightarrow> (error + string) \<times> database" where
  "put_skill db user skillId raw now =
     (case skillSchema raw of
        None \<Rightarrow> (Inl ValidationFailed, db)
      | Some body \<Rightarrow> update_skill db user skillId body now)"

subsection \<open>DELETE /:id: delete a skill\<close>

text \<open>
  The connection runs with \<^verbatim>\<open>PRAGMA foreign_keys = ON\<close>, and both skill columns of
  \<^verbatim>\<open>swap_requests\<close> are declared \<^verbatim>\<open>ON DELETE CASCADE\<close>: the swap requests that offer or
  request a deleted skill go with it.
\<close>

definition delete_skill :: "database \<Rightarrow> nat \<Rightarrow> nat \<Rightarrow> (error + string) \<times> database" where
  "delete_skill db user skillId =
    (case find (\<lambda>s. sk_id s = skillId \<and> sk_userId s = user) (skills db) of
       None \<Rightarrow> (Inl SkillNotFound, db)
     | Some _ \<Rightarrow>
        (Inr ''Skill deleted successfully'',
         db\<lparr>skills := filter (\<lambda>s. \<not> (sk_id s = skillId \<and> sk_userId s = user)) (skills db),
            swap_requests :=
              filter (\<lambda>r. sr_skillOfferedId r \<noteq> skillId \<and> sr_skillRequestedId r \<noteq> skillId)
                     (swap_requests db)\<rparr>))"

section \<open>Admin router\<close>

text \<open>
  PUT /users/:id/ban, behind \<^verbatim>\<open>requireAdmin\<close>. \<open>isBanned\<close> is the body's field: \<open>Some b\<close> for
  a boolean, \<open>None\<close> when it is missing, which reads as falsy in the message. The UPDATE
  names \<^verbatim>\<open>isBanned\<close>, \<^verbatim>\<open>updatedAt\<close>, \<^verbatim>\<open>id\<close> and \<^verbatim>\<open>isAdmin\<close> of \<^verbatim>\<open>users\<close>; what it throws is
  caught and answered with 500.
\<close>

definition ban_user ::
    "database \<Rightarrow> bool \<Rightarrow> nat \<Rightarrow> bool option \<Rightarrow> nat \<Rightarrow> (error + string) \<times> database" where
  "ban_user db is_admin userId isBanned now =
     (if \<not> is_admin then (Inl AdminAccessRequired, db)
      else if \<not> prepare users_columns [''isBanned'', ''updatedAt'', ''id'', ''isAdmin'']
      then (Inl InternalServerError, db)
      else (Inr (''User '' @ (if isBanned = Some True then ''banned'' else ''unbanned'')
                 @ '' successfully''),
            db\<lparr>users :=
                 map (\<lambda>u. if u_id u = userId \<and> \<not> u_isAdmin u
                           then u\<lparr>u_updatedAt := now\<rparr>
                           else u) (users db)\<rparr>))"

section \<open>Notification relay\<close>

text \<open>
  The registry \<^verbatim>\<open>clients\<close> is a \<^verbatim>\<open>Map<string, WebSocket>\<close>. A WebSocket object is named by a
  handle; what the relay's code reads and sets of it is kept in a record: the state of the
  \<^verbatim>\<open>ws\<close> package's object (\<open>readyState\<close>, what was sent on it) and the variables that the
  connection handler's closure holds for it (\<open>isAlive\<close>, whether \<open>pingInterval\<close> is still set,
  and the user whose close and error handlers are attached).
\<close>

datatype ready_state = CONNECTING | OPEN | CLOSING | CLOSED

record socket =
  readyState :: ready_state
  isAlive :: bool
  pingInterval :: bool
  attached :: "string option"
  pings :: nat
  outbox :: "string list"

record relay =
  clients :: "string \<Rightarrow> nat option"
  sockets :: "nat \<Rightarrow> socket option"

text \<open>
  The calls into the \<^verbatim>\<open>ws\<close> package: \<^verbatim>\<open>close\<close> starts the closing handshake of an open
  socket; \<^verbatim>\<open>terminate\<close> destroys the connection of a socket that is not closed yet, after
  which the package emits the socket's \<^verbatim>\<open>close\<close> event; \<^verbatim>\<open>ping\<close> and \<^verbatim>\<open>send\<close> write a
  frame.
\<close>

definition on_socket :: "relay \<Rightarrow> nat \<Rightarrow> (socket \<Rightarrow> socket) \<Rightarrow> relay" where
  "on_socket r ws f =
     (case sockets r ws of
        None \<Rightarrow> r
      | Some s \<Rightarrow> r\<lparr>sockets := (sockets r)(ws := Some (f s))\<rparr>)"

definition ws_close :: "socket \<Rightarrow> socket" where
  "ws_close s = (if readyState s = OPEN then s\<lparr>readyState := CLOSING\<rparr> else s)"

definition ws_terminate :: "socket \<Rightarrow> socket" where
  "ws_terminate s = (if readyState s = CLOSED then s else s\<lparr>readyState := CLOSING\<rparr>)"

definition ws_ping :: "socket \<Rightarrow> socket" where
  "ws_ping s = (if readyState s = OPEN then s\<lparr>pings := Suc (pings s)\<rparr> else s)"

definition ws_send :: "string \<Rightarrow> socket \<Rightarrow> socket" where
  "ws_send data s = s\<lparr>outbox := outbox s @ [data]\<rparr>"

text \<open>
  The \<^verbatim>\<open>connection\<close> handler. The request either has no URL, or its query string gives
  the \<^verbatim>\<open>userId\<close> parameter or does not; an empty \<^verbatim>\<open>userId\<close> is falsy.
\<close>

datatype request_url = NoUrl | Query "string option"

definition new_socket :: socket where
  "new_socket = \<lparr>readyState = OPEN, isAlive = True, pingInterval = True, attached = None,
                 pings = 0, outbox = []\<rparr>"

definition on_connection :: "relay \<Rightarrow> nat \<Rightarrow> request_url \<Rightarrow> relay" where
  "on_connection r ws req =
     (let r0 = r\<lparr>sockets := (sockets r)(ws := Some new_socket)\<rparr>
      in case req of
           NoUrl \<Rightarrow> on_socket r0 ws ws_close
         | Query None \<Rightarrow> on_socket r0 ws ws_close
         | Query (Some userId) \<Rightarrow>
             if userId = [] then on_socket r0 ws ws_close
             else
               let r1 = (case clients r0 userId of
                           Some existingConnection \<Rightarrow> on_socket r0 existingConnection ws_close
                         | None \<Rightarrow> r0);
                   r2 = r1\<lparr>clients := (clients r1)(userId := Some ws)\<rparr>
               in on_socket r2 ws (\<lambda>s. s\<lparr>attached := Some userId\<rparr>))"

text \<open>The callback of \<^verbatim>\<open>setInterval\<close>; it runs only while the interval is set.\<close>

definition heartbeat :: "relay \<Rightarrow> nat \<Rightarrow> relay" where
  "heartbeat r ws =
     on_socket r ws
       (\<lambda>s. if \<not> pingInterval s then s
             else if \<not> isAlive s then ws_terminate s
             else ws_ping (s\<lparr>isAlive := False\<rparr>))"

definition on_pong :: "relay \<Rightarrow> nat \<Rightarrow> relay" where
  "on_pong r ws = on_socket r ws (\<lambda>s. s\<lparr>isAlive := True\<rparr>)"

text \<open>
  \<^verbatim>\<open>handleClose\<close>, attached to the \<^verbatim>\<open>close\<close> and \<^verbatim>\<open>error\<close> events of a socket that was
  registered for \<open>userId\<close>.
\<close>

definition handleClose :: "relay \<Rightarrow> nat \<Rightarrow> string \<Rightarrow> relay" where
  "handleClose r ws userId =
     (let r1 = on_socket r ws (\<lambda>s. s\<lparr>pingInterval := False\<rparr>)
      in if clients r1 userId = Some ws
         then r1\<lparr>clients := (clients r1)(userId := None)\<rparr>
         else r1)"

definition on_close :: "relay \<Rightarrow> nat \<Rightarrow> relay" where
  "on_close r ws =
     (case sockets r ws of
        None \<Rightarrow> r
      | Some s \<Rightarrow>
          let r1 = on_socket r ws (\<lambda>s. s\<lparr>readyState := CLOSED\<rparr>)
          in case attached s of
               None \<Rightarrow> r1
             | Some userId \<Rightarrow> handleClose r1 ws userId)"

definition on_error :: "relay \<Rightarrow> nat \<Rightarrow> relay" where
  "on_error r ws =
     (case sockets r ws of
        None \<Rightarrow> r
      | Some s \<Rightarrow>
          (case attached s of
             None \<Rightarrow> r
           | Some userId \<Rightarrow> handleClose r ws userId))"

definition broadcastNotification :: "relay \<Rightarrow> string \<Rightarrow> string \<Rightarrow> relay" where
  "broadcastNotification r userId notification =
     (case clients r userId of
        None \<Rightarrow> r
      | Some client \<Rightarrow>
          (case sockets r client of
             None \<Rightarrow> r
           | Some s \<Rightarrow>
               if readyState s = OPEN then on_socket r client (ws_send notification) else r))"

text \<open>
  The states the relay can be in: it starts with an empty registry, every connection
  brings a WebSocket object of its own, and the events of a socket arrive in any order.
\<close>

definition empty_relay :: relay where
  "empty_relay = \<lparr>clients = (\<lambda>_. None), sockets = (\<lambda>_. None)\<rparr>"

inductive reachable :: "relay \<Rightarrow> bool" where
  start: "reachable empty_relay"
| connection: "reachable r \<Longrightarrow> sockets r ws = None \<Longrightarrow> reachable (on_connection r ws req)"
| tick: "reachable r \<Longrightarrow> reachable (heartbeat r ws)"
| pong: "reachable r \<Longrightarrow> reachable (on_pong r ws)"
| close: "reachable r \<Longrightarrow> reachable (on_close r ws)"
| error: "reachable r \<Longrightarrow> reachable (on_error r ws)"
| notify: "reachable r \<Longrightarrow> reachable (broadcastNotification r userId notification)"

section \<open>Example data\<close>

text \<open>
  User 1 offers React (skill 20), user 2 offers Figma (skill 10); request 1 is user 1
  asking for Figma against React, in the status given.
\<close>

definition ex_skills :: "skill list" where
  "ex_skills =
    [\<lparr>sk_id = 10, sk_userId = 2, sk_name = ''Figma'', sk_description = None,
      sk_proficiency = ''expert'', sk_isOffering = True, sk_isSeeking = False, sk_updatedAt = 0\<rparr>,
     \<lparr>sk_id = 20, sk_userId = 1, sk_name = ''React'', sk_description = None,
      sk_proficiency = ''advanced'', sk_isOffering = True, sk_isSeeking = False, sk_updatedAt = 0\<rparr>]"

definition ex_request :: "string \<Rightarrow> swap_request" where
  "ex_request st =
     \<lparr>sr_id = 1, sr_requesterId = 1, sr_skillOfferedId = 20, sr_skillRequestedId = 10,
      sr_status = st, sr_message = None, sr_completedAt = None,
      sr_ratingByRequester = None, sr_ratingByReceiver = None,
      sr_feedbackByRequester = None, sr_feedbackByReceiver = None,
      sr_createdAt = 0, sr_updatedAt = 0\<rparr>"

definition ex_db :: "string \<Rightarrow> database" where
  "ex_db st = \<lparr>users = [], skills = ex_skills, swap_requests = [ex_request st],
              ratings = [], swap_requests_seq = 1, ratings_seq = 0\<rparr>"

text \<open>
  The edges of the status graph as the specification draws them: from \<^verbatim>\<open>pending\<close> to
  \<^verbatim>\<open>accepted\<close>, \<^verbatim>\<open>rejected\<close> or \<^verbatim>\<open>cancelled\<close>, and from \<^verbatim>\<open>accepted\<close> to \<^verbatim>\<open>completed\<close>.
\<close>

definition spec_edge :: "string \<Rightarrow> string \<Rightarrow> bool" where
  "spec_edge old new \<longleftrightarrow>
     (old = ''pending'' \<and> new \<in> set [''accepted'', ''rejected'', ''cancelled''])
     \<or> (old = ''accepted'' \<and> new = ''completed'')"



text \<open>A parsed and a raw body for the skills router.\<close>

definition ex_skill_body :: skill_body where
  "ex_skill_body = \<lparr>sb_name = ''Sketch'', sb_type = ''wanted'', sb_description = None,
                     sb_proficiency_level = ''beginner''\<rparr>"

definition ex_raw_skill_body :: raw_skill_body where
  "ex_raw_skill_body = \<lparr>raw_name = Some ''Sketch'', raw_type = Some ''wanted'',
                         raw_description = None, raw_proficiency_level = None\<rparr>"

text \<open>
  A users table with an administrator and four other users, as the seed data has them.
\<close>

definition ex_user :: "nat \<Rightarrow> string \<Rightarrow> string \<Rightarrow> bool \<Rightarrow> user" where
  "ex_user i email fullName isAdmin =
     \<lparr>u_id = i, u_email = email, u_fullName = fullName, u_rating = 0, u_isAdmin = isAdmin,
      u_updatedAt = 0\<rparr>"

definition ex_users :: "user list" where
  "ex_users =
    [ex_user 1 ''john@example.com'' ''John Doe'' True,
     ex_user 2 ''jane@example.com'' ''Jane Smith'' False,
     ex_user 3 ''alex@example.com'' ''Alex Wong'' False,
     ex_user 4 ''sarah@example.com'' ''Sarah Lee'' False,
     ex_user 5 ''mike@example.com'' ''Mike Chen'' False]"

definition ex_users_db :: database where
  "ex_users_db = \<lparr>users = ex_users, skills = [], swap_requests = [], ratings = [],
                   swap_requests_seq = 0, ratings_seq = 0\<rparr>"

definition ex_rating :: "nat \<Rightarrow> nat \<Rightarrow> nat \<Rightarrow> int \<Rightarrow> rating" where
  "ex_rating i raterId userId stars =
     \<lparr>rt_id = i, rt_userId = userId, rt_raterId = raterId, rt_rating = stars,
      rt_comment = None, rt_createdAt = 0, rt_updatedAt = 0\<rparr>"

definition five_stars :: rating_body where
  "five_stars = \<lparr>rb_rating = 5, rb_feedback = None\<rparr>"

text \<open>
  Request 1 completed, among the five users, while user 2 holds the ratings 4, 4, 4 and 5
  given by users 1, 3, 4 and 5.
\<close>

definition ex_avg_db :: database where
  "ex_avg_db = (ex_db ''completed'')
     \<lparr>users := ex_users,
      ratings := [ex_rating 1 1 2 4, ex_rating 2 3 2 4, ex_rating 3 4 2 4, ex_rating 4 5 2 5],
      ratings_seq := 4\<rparr>"

text \<open>Lists of ratings whose means are \<open>29 / 20\<close>, \<open>87 / 20\<close> and \<open>51 / 20\<close>.\<close>

definition stars_29_20 :: "int list" where
  "stars_29_20 = replicate 11 1 @ replicate 9 2"

definition stars_87_20 :: "int list" where
  "stars_87_20 = replicate 13 4 @ replicate 7 5"

definition stars_51_20 :: "int list" where
  "stars_51_20 = replicate 9 2 @ replicate 11 3"


text \<open>The arithmetic mean of a list of ratings, as the rational number it is.\<close>

definition arithmetic_mean :: "int list \<Rightarrow> rat" where
  "arithmetic_mean xs = of_int (sum_list xs) / of_nat (length xs)"

text \<open>
  What holds of the registry in every state of the relay: an entry for a user names a
  socket that was registered for this user, whose interval is still set and whose
  \<^verbatim>\<open>close\<close> event has not been delivered.
\<close>

definition registry_ok :: "relay \<Rightarrow> bool" where
  "registry_ok r \<longleftrightarrow>
     (\<forall>u ws. clients r u = Some ws \<longrightarrow>
        (\<exists>s. sockets r ws = Some s \<and> attached s = Some u \<and> pingInterval s
             \<and> readyState s \<noteq> CLOSED))"

text \<open>The relay after user 7 has connected with socket 1.\<close>

definition ex_relay :: relay where
  "ex_relay = on_connection empty_relay 1 (Query (Some ''7''))"

section \<open>Properties of the swap requests router\<close>

lemma find_SomeD: "find P xs = Some x \<Longrightarrow> x \<in> set xs \<and> P x"
  by (induction xs) (auto split: if_splits)

lemma find_None_conv: "find P xs = None \<longleftrightarrow> (\<forall>x\<in>set xs. \<not> P x)"
  by (induction xs) auto

lemma get_swap_with_owner_SomeD:
  "get_swap_with_owner db sid = Some (sr, s) \<Longrightarrow>
     sr \<in> set (swap_requests db) \<and> s \<in> set (skills db) \<and> sr_id sr = sid
     \<and> sk_id s = sr_skillRequestedId sr"
  unfolding get_swap_with_owner_def
  by (auto dest!: find_SomeD)

text \<open>
  C4. The provider of a request is the owner of its requested skill, the \<open>s\<close> that the
  handler's join returns with the request. A move to \<^verbatim>\<open>accepted\<close> or \<^verbatim>\<open>rejected\<close> succeeds
  only for the provider; every other user is answered 403 with the database as it was, and
  so is the requester, also when the requester owns the requested skill.
\<close>

theorem accept_reject_only_provider:
  assumes "get_swap_with_owner db swapRequestId = Some (swapRequest, s)"
      and "status = ''accepted'' \<or> status = ''rejected''"
  shows "((\<exists>m. fst (update_swap_status db user swapRequestId status now) = Inr m)
            \<longrightarrow> user = sk_userId s)
       \<and> (user \<noteq> sk_userId s \<longrightarrow>
            update_swap_status db user swapRequestId status now
              = (Inl OnlyProviderCanAcceptOrReject, db))
       \<and> (user = sr_requesterId swapRequest \<longrightarrow>
            (\<exists>e. update_swap_status db user swapRequestId status now = (Inl e, db)
                 \<and> http_status e = 403))
       \<and> http_status OnlyProviderCanAcceptOrReject = 403"
  using assms by (auto simp: update_swap_status_def commit_status_def)

theorem accept_reject_only_provider_witness:
  "get_swap_with_owner (ex_db ''pending'') 1 = Some (ex_request ''pending'', hd ex_skills)
   \<and> update_swap_status (ex_db ''pending'') 1 1 ''rejected'' 5
       = (Inl OnlyProviderCanAcceptOrReject, ex_db ''pending'')
   \<and> (\<exists>m. fst (update_swap_status (ex_db ''pending'') 2 1 ''accepted'' 5) = Inr m)"
proof -
  have h: "get_swap_with_owner (ex_db ''pending'') 1 = Some (ex_request ''pending'', hd ex_skills)"
    by (simp add: get_swap_with_owner_def ex_db_def ex_skills_def ex_request_def)
  have a: "update_swap_status (ex_db ''pending'') 1 1 ''rejected'' 5
       = (Inl OnlyProviderCanAcceptOrReject, ex_db ''pending'')"
    using accept_reject_only_provider [OF h, of "''rejected''" 1 5]
    by (simp add: ex_skills_def)
  have b: "\<exists>m. fst (update_swap_status (ex_db ''pending'') 2 1 ''accepted'' 5) = Inr m"
    by (simp add: update_swap_status_def get_swap_with_owner_def commit_status_def
          ex_db_def ex_skills_def ex_request_def)
  from h a b show ?thesis by blast
qed

text \<open>
  C5. For a request that exists and whose requested skill exists, deletion succeeds exactly
  when the request is \<^verbatim>\<open>pending\<close> and the acting user is its requester or the owner of the
  requested skill. A user who is neither is answered 403 (not authorized); a participant
  deleting a request in another status is answered 400 (only pending requests can be
  deleted). After a successful deletion no row with the identifier is left and the other
  rows are as before.
\<close>

theorem delete_only_pending_by_participant:
  assumes "find (\<lambda>r. sr_id r = swapRequestId) (swap_requests db) = Some swapRequest"
      and "find (\<lambda>s. sk_id s = sr_skillRequestedId swapRequest) (skills db) = Some providerSkill"
  shows "((\<exists>m. fst (delete_swap db user swapRequestId) = Inr m) \<longleftrightarrow>
            sr_status swapRequest = ''pending''
            \<and> (user = sr_requesterId swapRequest \<or> user = sk_userId providerSkill))
       \<and> (user \<noteq> sr_requesterId swapRequest \<and> user \<noteq> sk_userId providerSkill \<longrightarrow>
            delete_swap db user swapRequestId = (Inl NotAuthorizedToUpdate, db))
       \<and> ((user = sr_requesterId swapRequest \<or> user = sk_userId providerSkill)
            \<and> sr_status swapRequest \<noteq> ''pending'' \<longrightarrow>
            delete_swap db user swapRequestId = (Inl OnlyPendingCanBeDeleted, db))
       \<and> ((user = sr_requesterId swapRequest \<or> user = sk_userId providerSkill)
            \<and> sr_status swapRequest = ''pending'' \<longrightarrow>
            snd (delete_swap db user swapRequestId)
              = db\<lparr>swap_requests := filter (\<lambda>r. sr_id r \<noteq> swapRequestId) (swap_requests db)\<rparr>
            \<and> swapRequestId \<notin> sr_id ` set (swap_requests (snd (delete_swap db user swapRequestId))))
       \<and> http_status NotAuthorizedToUpdate = 403 \<and> http_status OnlyPendingCanBeDeleted = 400"
  using assms by (auto simp: delete_swap_def)

theorem delete_only_pending_by_participant_witness:
  "find (\<lambda>r. sr_id r = 1) (swap_requests (ex_db ''accepted'')) = Some (ex_request ''accepted'')
   \<and> find (\<lambda>s. sk_id s = sr_skillRequestedId (ex_request ''accepted'')) (skills (ex_db ''accepted''))
       = Some (hd ex_skills)
   \<and> delete_swap (ex_db ''accepted'') 1 1 = (Inl OnlyPendingCanBeDeleted, ex_db ''accepted'')
   \<and> delete_swap (ex_db ''accepted'') 3 1 = (Inl NotAuthorizedToUpdate, ex_db ''accepted'')"
proof -
  have h1: "find (\<lambda>r. sr_id r = 1) (swap_requests (ex_db ''accepted'')) = Some (ex_request ''accepted'')"
    by (simp add: ex_db_def ex_request_def)
  have h2: "find (\<lambda>s. sk_id s = sr_skillRequestedId (ex_request ''accepted'')) (skills (ex_db ''accepted''))
       = Some (hd ex_skills)"
    by (simp add: ex_db_def ex_request_def ex_skills_def)
  show ?thesis
    using h1 h2 delete_only_pending_by_participant [OF h1 h2, of 1]
      delete_only_pending_by_participant [OF h1 h2, of 3]
    by (simp add: ex_request_def ex_skills_def)
qed

lemma set_status_all:
  "list_all (\<lambda>r. sr_id r = sid \<longrightarrow> sr_status r = status) (set_status rows sid status now)"
proof (cases "status = ''completed''")
  case True
  then show ?thesis by (induction rows) (simp_all add: set_status_def)
next
  case False
  then show ?thesis by (induction rows) (simp_all add: set_status_def)
qed

lemma set_status_status:
  "r \<in> set (set_status rows sid status now) \<Longrightarrow> sr_id r = sid \<Longrightarrow> sr_status r = status"
  using set_status_all [of sid status rows now] by (simp add: list_all_iff)

lemma set_status_others:
  "filter (\<lambda>r. sr_id r \<noteq> sid) (set_status rows sid status now) = filter (\<lambda>r. sr_id r \<noteq> sid) rows"
proof (cases "status = ''completed''")
  case True
  then show ?thesis by (induction rows) (simp_all add: set_status_def)
next
  case False
  then show ?thesis by (induction rows) (simp_all add: set_status_def)
qed




text \<open>
  C1, as the handler has it. The handler never reads the current status of the request: for
  a request found by its join, the update succeeds exactly when the acting user passes the
  role check of the target status, whatever the status was; the rows with the identifier
  then carry the target status. A refused attempt leaves the database as it was, and no
  attempt is answered with the deletion route's "only pending" error.
\<close>

theorem status_update_by_role_only:
  assumes "get_swap_with_owner db swapRequestId = Some (swapRequest, s)"
  shows "((\<exists>m. fst (update_swap_status db user swapRequestId status now) = Inr m) \<longleftrightarrow>
            ((status = ''accepted'' \<or> status = ''rejected'')
               \<and> user = sk_userId s \<and> user \<noteq> sr_requesterId swapRequest)
            \<or> (status = ''cancelled'' \<and> user = sr_requesterId swapRequest)
            \<or> (status = ''completed''
                \<and> (user = sr_requesterId swapRequest \<or> user = sk_userId s)))
       \<and> ((\<exists>m. fst (update_swap_status db user swapRequestId status now) = Inr m) \<longrightarrow>
            (\<forall>r \<in> set (swap_requests (snd (update_swap_status db user swapRequestId status now))).
               sr_id r = swapRequestId \<longrightarrow> sr_status r = status))
       \<and> ((\<exists>e. fst (update_swap_status db user swapRequestId status now) = Inl e) \<longrightarrow>
            snd (update_swap_status db user swapRequestId status now) = db)
       \<and> fst (update_swap_status db user swapRequestId status now) \<noteq> Inl OnlyPendingCanBeDeleted"
proof -
  let ?res = "update_swap_status db user swapRequestId status now"
  have ok: "?res = commit_status db swapRequestId status now \<or> (\<exists>e. ?res = (Inl e, db) \<and> e \<noteq> OnlyPendingCanBeDeleted)"
    using assms by (simp add: update_swap_status_def)
  have c1: "(\<exists>m. fst ?res = Inr m) \<longleftrightarrow>
            ((status = ''accepted'' \<or> status = ''rejected'')
               \<and> user = sk_userId s \<and> user \<noteq> sr_requesterId swapRequest)
            \<or> (status = ''cancelled'' \<and> user = sr_requesterId swapRequest)
            \<or> (status = ''completed''
                \<and> (user = sr_requesterId swapRequest \<or> user = sk_userId s))"
    using assms by (simp add: update_swap_status_def commit_status_def) 
  have c2: "(\<exists>m. fst ?res = Inr m) \<longrightarrow>
            (\<forall>r \<in> set (swap_requests (snd ?res)). sr_id r = swapRequestId \<longrightarrow> sr_status r = status)"
    using ok by (auto simp: commit_status_def dest: set_status_status)
  have c3: "(\<exists>e. fst ?res = Inl e) \<longrightarrow> snd ?res = db"
    using ok by (auto simp: commit_status_def)
  have c4: "fst ?res \<noteq> Inl OnlyPendingCanBeDeleted"
    using ok by (auto simp: commit_status_def)
  from c1 c2 c3 c4 show ?thesis by blast
qed

theorem status_update_by_role_only_witness:
  "get_swap_with_owner (ex_db ''rejected'') 1 = Some (ex_request ''rejected'', hd ex_skills)
   \<and> (\<exists>m. fst (update_swap_status (ex_db ''rejected'') 2 1 ''accepted'' 5) = Inr m)
   \<and> map sr_status (swap_requests (snd (update_swap_status (ex_db ''rejected'') 2 1 ''accepted'' 5)))
       = [''accepted'']"
proof -
  have h: "get_swap_with_owner (ex_db ''rejected'') 1 = Some (ex_request ''rejected'', hd ex_skills)"
    by (simp add: get_swap_with_owner_def ex_db_def ex_skills_def ex_request_def)
  have a: "\<exists>m. fst (update_swap_status (ex_db ''rejected'') 2 1 ''accepted'' 5) = Inr m"
    using status_update_by_role_only [OF h, of 2 "''accepted''" 5]
    by (simp add: ex_skills_def ex_request_def)
  have b: "map sr_status (swap_requests (snd (update_swap_status (ex_db ''rejected'') 2 1 ''accepted'' 5)))
       = [''accepted'']"
    by (simp add: update_swap_status_def get_swap_with_owner_def commit_status_def set_status_def
          ex_db_def ex_skills_def ex_request_def)
  from h a b show ?thesis by blast
qed

text \<open>
  C1, as stated, fails: \<^verbatim>\<open>pending\<close> to \<^verbatim>\<open>completed\<close> is not an edge of the specification, yet the
  requester's attempt to complete the pending request 1 succeeds and the row's status
  becomes \<^verbatim>\<open>completed\<close>.
\<close>

theorem complete_pending_counterexample:
  "sr_status (ex_request ''pending'') = ''pending''
   \<and> \<not> spec_edge ''pending'' ''completed''
   \<and> fst (update_swap_status (ex_db ''pending'') 1 1 ''completed'' 5)
       = Inr ''Swap request completed successfully''
   \<and> map sr_status (swap_requests (snd (update_swap_status (ex_db ''pending'') 1 1 ''completed'' 5)))
       = [''completed'']"
  by (simp add: update_swap_status_def get_swap_with_owner_def commit_status_def set_status_def
        spec_edge_def ex_db_def ex_skills_def ex_request_def)




text \<open>
  C3, as the handler has it. For a request found by the handler's join, the requester's
  cancellation succeeds, whatever the status of the request; the owner of the requested
  skill, when not the requester, is answered 400 with \<^verbatim>\<open>rejected\<close> as the allowed action; any
  other user is answered 403. A refused attempt leaves the database as it was.
\<close>

theorem cancel_only_requester:
  assumes "get_swap_with_owner db swapRequestId = Some (swapRequest, s)"
  shows "(user = sr_requesterId swapRequest \<longrightarrow>
            fst (update_swap_status db user swapRequestId ''cancelled'' now)
              = Inr ''Swap request cancelled successfully''
            \<and> (\<forall>r \<in> set (swap_requests
                            (snd (update_swap_status db user swapRequestId ''cancelled'' now))).
                  sr_id r = swapRequestId \<longrightarrow> sr_status r = ''cancelled''))
       \<and> (user \<noteq> sr_requesterId swapRequest \<and> user = sk_userId s \<longrightarrow>
            update_swap_status db user swapRequestId ''cancelled'' now
              = (Inl CannotCancelThisRequest, db))
       \<and> (user \<noteq> sr_requesterId swapRequest \<and> user \<noteq> sk_userId s \<longrightarrow>
            update_swap_status db user swapRequestId ''cancelled'' now
              = (Inl OnlyRequesterCanCancel, db))
       \<and> allowedActions CannotCancelThisRequest = [''rejected'']
       \<and> http_status CannotCancelThisRequest = 400
       \<and> http_status OnlyRequesterCanCancel = 403"
proof -
  let ?res = "update_swap_status db user swapRequestId ''cancelled'' now"
  have r: "?res = (if sr_requesterId swapRequest \<noteq> user
                   then if sk_userId s = user then (Inl CannotCancelThisRequest, db)
                        else (Inl OnlyRequesterCanCancel, db)
                   else commit_status db swapRequestId ''cancelled'' now)"
    using assms by (simp add: update_swap_status_def)
  have c1: "user = sr_requesterId swapRequest \<longrightarrow>
            fst ?res = Inr ''Swap request cancelled successfully''
            \<and> (\<forall>r \<in> set (swap_requests (snd ?res)).
                  sr_id r = swapRequestId \<longrightarrow> sr_status r = ''cancelled'')"
    using r by (auto simp: commit_status_def dest: set_status_status)
  have c2: "user \<noteq> sr_requesterId swapRequest \<and> user = sk_userId s \<longrightarrow>
            ?res = (Inl CannotCancelThisRequest, db)"
    using r by auto
  have c3: "user \<noteq> sr_requesterId swapRequest \<and> user \<noteq> sk_userId s \<longrightarrow>
            ?res = (Inl OnlyRequesterCanCancel, db)"
    using r by auto
  from c1 c2 c3 show ?thesis by simp
qed

theorem cancel_only_requester_witness:
  "get_swap_with_owner (ex_db ''pending'') 1 = Some (ex_request ''pending'', hd ex_skills)
   \<and> update_swap_status (ex_db ''pending'') 2 1 ''cancelled'' 5
       = (Inl CannotCancelThisRequest, ex_db ''pending'')
   \<and> update_swap_status (ex_db ''pending'') 3 1 ''cancelled'' 5
       = (Inl OnlyRequesterCanCancel, ex_db ''pending'')
   \<and> fst (update_swap_status (ex_db ''pending'') 1 1 ''cancelled'' 5)
       = Inr ''Swap request cancelled successfully''"
proof -
  have h: "get_swap_with_owner (ex_db ''pending'') 1 = Some (ex_request ''pending'', hd ex_skills)"
    by (simp add: get_swap_with_owner_def ex_db_def ex_skills_def ex_request_def)
  show ?thesis
    using h cancel_only_requester [OF h, of 1 5] cancel_only_requester [OF h, of 2 5]
      cancel_only_requester [OF h, of 3 5]
    by (simp add: ex_skills_def ex_request_def)
qed

text \<open>
  C3, as stated, fails: the requester cancels request 1 after it was completed, and the
  row's status becomes \<^verbatim>\<open>cancelled\<close>.
\<close>

theorem cancel_completed_counterexample:
  "sr_status (ex_request ''completed'') = ''completed''
   \<and> sr_requesterId (ex_request ''completed'') = 1
   \<and> fst (update_swap_status (ex_db ''completed'') 1 1 ''cancelled'' 5)
       = Inr ''Swap request cancelled successfully''
   \<and> map sr_status (swap_requests (snd (update_swap_status (ex_db ''completed'') 1 1 ''cancelled'' 5)))
       = [''cancelled'']"
  by (simp add: update_swap_status_def get_swap_with_owner_def commit_status_def set_status_def
        ex_db_def ex_skills_def ex_request_def)

section \<open>Properties of the skills router\<close>

lemma update_skill_others:
  "filter (\<lambda>s. sk_userId s \<noteq> user) (skills (snd (update_skill db user skillId body now)))
     = filter (\<lambda>s. sk_userId s \<noteq> user) (skills db)"
proof -
  have "filter (\<lambda>s. sk_userId s \<noteq> user)
          (map (\<lambda>s. if sk_id s = skillId \<and> sk_userId s = user then f s else s) rows)
        = filter (\<lambda>s. sk_userId s \<noteq> user) rows"
    if "\<And>s. sk_userId (f s) = sk_userId s" for f :: "skill \<Rightarrow> skill" and rows
    using that by (induction rows) simp_all
  then show ?thesis
    by (simp add: update_skill_def Let_def split: option.split)
qed

lemma delete_skill_others:
  "filter (\<lambda>s. sk_userId s \<noteq> user) (skills (snd (delete_skill db user skillId)))
     = filter (\<lambda>s. sk_userId s \<noteq> user) (skills db)"
proof -
  have "filter (\<lambda>s. sk_userId s \<noteq> user)
          (filter (\<lambda>s. \<not> (sk_id s = skillId \<and> sk_userId s = user)) rows)
        = filter (\<lambda>s. sk_userId s \<noteq> user) rows" for rows :: "skill list"
    by (induction rows) auto
  then show ?thesis
    by (auto simp: delete_skill_def split: option.split)
qed

text \<open>
  C8. When no skill with the given identifier belongs to the acting user, whether the
  identifier names another user's skill or none, the update and the delete handler both
  answer 404 "Skill not found" and leave the database as it was; the answer is the one
  given when the skill is absent from the table. The PUT route as a whole, with its body
  validation in front, answers 404 or the validator's 400, never 403. For every call, by
  any user \<open>actor\<close> on any database \<open>db'\<close>, the rows of the skills of other users are the same
  before and after.
\<close>

theorem skill_mutation_only_by_owner:
  assumes "\<not> (\<exists>s \<in> set (skills db). sk_id s = skillId \<and> sk_userId s = user)"
  shows "update_skill db user skillId body now = (Inl SkillNotFound, db)
       \<and> delete_skill db user skillId = (Inl SkillNotFound, db)
       \<and> http_status SkillNotFound = 404
       \<and> update_skill (db\<lparr>skills := filter (\<lambda>s. sk_id s \<noteq> skillId) (skills db)\<rparr>)
             user skillId body now
           = (Inl SkillNotFound, db\<lparr>skills := filter (\<lambda>s. sk_id s \<noteq> skillId) (skills db)\<rparr>)
       \<and> delete_skill (db\<lparr>skills := filter (\<lambda>s. sk_id s \<noteq> skillId) (skills db)\<rparr>)
             user skillId
           = (Inl SkillNotFound, db\<lparr>skills := filter (\<lambda>s. sk_id s \<noteq> skillId) (skills db)\<rparr>)
       \<and> (put_skill db user skillId raw now = (Inl SkillNotFound, db)
            \<or> put_skill db user skillId raw now = (Inl ValidationFailed, db))
       \<and> filter (\<lambda>s. sk_userId s \<noteq> actor) (skills (snd (update_skill db' actor skillId body now)))
           = filter (\<lambda>s. sk_userId s \<noteq> actor) (skills db')
       \<and> filter (\<lambda>s. sk_userId s \<noteq> actor) (skills (snd (delete_skill db' actor skillId)))
           = filter (\<lambda>s. sk_userId s \<noteq> actor) (skills db')"
proof -
  have n: "find (\<lambda>s. sk_id s = skillId \<and> sk_userId s = user) (skills db) = None"
    using assms by (auto simp: find_None_conv)
  have n': "find (\<lambda>s. sk_id s = skillId \<and> sk_userId s = user)
              (filter (\<lambda>s. sk_id s \<noteq> skillId) (skills db)) = None"
    by (auto simp: find_None_conv)
  have u: "update_skill db user skillId b now = (Inl SkillNotFound, db)" for b
    using n by (simp add: update_skill_def)
  have d: "delete_skill db user skillId = (Inl SkillNotFound, db)"
    using n by (simp add: delete_skill_def)
  have u': "update_skill (db\<lparr>skills := filter (\<lambda>s. sk_id s \<noteq> skillId) (skills db)\<rparr>)
             user skillId body now
           = (Inl SkillNotFound, db\<lparr>skills := filter (\<lambda>s. sk_id s \<noteq> skillId) (skills db)\<rparr>)"
    using n' by (simp add: update_skill_def)
  have d': "delete_skill (db\<lparr>skills := filter (\<lambda>s. sk_id s \<noteq> skillId) (skills db)\<rparr>)
             user skillId
           = (Inl SkillNotFound, db\<lparr>skills := filter (\<lambda>s. sk_id s \<noteq> skillId) (skills db)\<rparr>)"
    using n' by (simp add: delete_skill_def)
  have p: "put_skill db user skillId raw now = (Inl SkillNotFound, db)
            \<or> put_skill db user skillId raw now = (Inl ValidationFailed, db)"
    using u by (simp add: put_skill_def split: option.split)
  from u d u' d' p update_skill_others [of actor db' skillId body now]
    delete_skill_others [of actor db' skillId]
  show ?thesis by simp
qed

theorem skill_mutation_only_by_owner_witness:
  "update_skill (ex_db ''pending'') 1 10 ex_skill_body 9 = (Inl SkillNotFound, ex_db ''pending'')
   \<and> delete_skill (ex_db ''pending'') 1 10 = (Inl SkillNotFound, ex_db ''pending'')
   \<and> put_skill (ex_db ''pending'') 1 10 ex_raw_skill_body 9 = (Inl SkillNotFound, ex_db ''pending'')
   \<and> update_skill (ex_db ''pending'') 1 30 ex_skill_body 9 = (Inl SkillNotFound, ex_db ''pending'')
   \<and> (\<exists>m. fst (delete_skill (ex_db ''pending'') 2 10) = Inr m)"
proof -
  have h: "\<not> (\<exists>s \<in> set (skills (ex_db ''pending'')). sk_id s = 10 \<and> sk_userId s = 1)"
    by (simp add: ex_db_def ex_skills_def)
  have h': "\<not> (\<exists>s \<in> set (skills (ex_db ''pending'')). sk_id s = 30 \<and> sk_userId s = 1)"
    by (simp add: ex_db_def ex_skills_def)
  have p: "put_skill (ex_db ''pending'') 1 10 ex_raw_skill_body 9 = (Inl SkillNotFound, ex_db ''pending'')"
    by (simp add: put_skill_def skillSchema_def update_skill_def ex_raw_skill_body_def
          ex_db_def ex_skills_def)
  have s: "\<exists>m. fst (delete_skill (ex_db ''pending'') 2 10) = Inr m"
    by (simp add: delete_skill_def ex_db_def ex_skills_def)
  show ?thesis
    using p s skill_mutation_only_by_owner [OF h, of ex_skill_body 9 ex_raw_skill_body]
      skill_mutation_only_by_owner [OF h', of ex_skill_body 9 ex_raw_skill_body]
    by simp
qed

section \<open>Properties of the admin router\<close>

lemma users_has_no_isBanned:
  "\<not> prepare users_columns [''isBanned'', ''updatedAt'', ''id'', ''isAdmin'']"
  by (simp add: prepare_def users_columns_def)

text \<open>
  Claim C10. The ban endpoint bans nobody, administrator or not: its UPDATE names the
  column \<^verbatim>\<open>isBanned\<close>, which the \<^verbatim>\<open>users\<close> table does not have, so SQLite refuses the
  statement. Every call that has passed \<^verbatim>\<open>requireAdmin\<close> is answered with 500 and the error
  \<^verbatim>\<open>Internal server error\<close>, whoever its target is, and changes no row; it is never answered
  with the message of success. A caller who is no administrator gets the 403 of
  \<^verbatim>\<open>requireAdmin\<close>.
\<close>

theorem ban_user_answers_500:
  "ban_user db is_admin userId isBanned now
     = (Inl (if is_admin then InternalServerError else AdminAccessRequired), db)
   \<and> http_status InternalServerError = 500"
  using users_has_no_isBanned by (simp add: ban_user_def)

text \<open>
  An administrator's attempt to ban the administrator 1, and one to ban user 2, on the five
  seeded users.
\<close>

theorem ban_user_answers_500_witness:
  "map (\<lambda>u. (u_id u, u_isAdmin u)) (users ex_users_db)
     = [(1, True), (2, False), (3, False), (4, False), (5, False)]
   \<and> ban_user ex_users_db True 1 (Some True) 9 = (Inl InternalServerError, ex_users_db)
   \<and> ban_user ex_users_db True 2 (Some True) 9 = (Inl InternalServerError, ex_users_db)"
  using ban_user_answers_500 [of ex_users_db True 1 "Some True" 9]
    ban_user_answers_500 [of ex_users_db True 2 "Some True" 9]
  by (simp add: ex_users_db_def ex_users_def ex_user_def)

section \<open>Properties of the ratings router\<close>

lemma ratings_has_no_swapId:
  "\<not> prepare ratings_columns [''id'', ''userId'', ''swapId'', ''raterId'']"
  by (simp add: prepare_def ratings_columns_def)

lemma get_existing_rating_throws: "get_existing_rating db swapId user = Inl SQLITE_ERROR"
  using ratings_has_no_swapId by (simp add: get_existing_rating_def)

lemma submit_rating_prepared:
  "prepare swap_requests_columns [''id'', ''status'']"
  "prepare skills_columns [''userId'', ''id'']"
  by (simp_all add: prepare_def swap_requests_columns_def skills_columns_def)

lemma submit_rating_never_stores: "\<exists>e. submit_rating db user swapId body now = (Inl e, db)"
  by (simp add: submit_rating_def submit_rating_prepared get_existing_rating_throws Let_def
           split: option.split)

text \<open>
  Claim C7. A participant's rating of a completed swap is not stored. After the swap has
  been found completed and the caller found to be its requester or the owner of the
  requested skill, the handler looks for an earlier rating with
  \<^verbatim>\<open>WHERE swapId = ? AND raterId = ?\<close>; the \<^verbatim>\<open>ratings\<close> table has no column \<^verbatim>\<open>swapId\<close>, SQLite
  refuses the statement, and the call is answered with 500 and the database as it was.
  Hence no submission at all, by whomever and for whichever swap, is answered with
  success or writes a row: there is neither an insert nor an update in place.
\<close>

theorem submit_rating_fails_at_lookup:
  assumes "find (\<lambda>r. sr_id r = swapId \<and> sr_status r = ''completed'') (swap_requests db)
             = Some swapRequest"
      and "find (\<lambda>s. sk_id s = sr_skillRequestedId swapRequest) (skills db) = Some skillOwner"
      and "sr_requesterId swapRequest = user \<or> sk_userId skillOwner = user"
  shows "submit_rating db user swapId body now = (Inl InternalServerError, db)
         \<and> http_status InternalServerError = 500
         \<and> (\<forall>u s b n. \<exists>e. submit_rating db u s b n = (Inl e, db))"
proof -
  have a: "submit_rating db user swapId body now = (Inl InternalServerError, db)"
    using assms
    by (auto simp add: submit_rating_def submit_rating_prepared get_existing_rating_throws Let_def)
  have b: "\<forall>u s b n. \<exists>e. submit_rating db u s b n = (Inl e, db)"
    using submit_rating_never_stores by blast
  from a b show ?thesis by simp
qed

text \<open>
  The requester 1 and the provider 2 of the completed request 1 each submit five stars.
\<close>

theorem submit_rating_fails_at_lookup_witness:
  "find (\<lambda>r. sr_id r = 1 \<and> sr_status r = ''completed'') (swap_requests ex_avg_db)
     = Some (ex_request ''completed'')
   \<and> find (\<lambda>s. sk_id s = sr_skillRequestedId (ex_request ''completed'')) (skills ex_avg_db)
     = Some (hd ex_skills)
   \<and> sr_requesterId (ex_request ''completed'') = 1
   \<and> sk_userId (hd ex_skills) = 2
   \<and> submit_rating ex_avg_db 1 1 five_stars 9 = (Inl InternalServerError, ex_avg_db)
   \<and> submit_rating ex_avg_db 2 1 five_stars 9 = (Inl InternalServerError, ex_avg_db)"
proof -
  have f: "find (\<lambda>r. sr_id r = 1 \<and> sr_status r = ''completed'') (swap_requests ex_avg_db)
             = Some (ex_request ''completed'')"
    by (simp add: ex_avg_db_def ex_db_def ex_request_def)
  have o: "find (\<lambda>s. sk_id s = sr_skillRequestedId (ex_request ''completed'')) (skills ex_avg_db)
             = Some (hd ex_skills)"
    by (simp add: ex_avg_db_def ex_db_def ex_request_def ex_skills_def)
  have p1: "sr_requesterId (ex_request ''completed'') = 1" by (simp add: ex_request_def)
  have p2: "sk_userId (hd ex_skills) = 2" by (simp add: ex_skills_def)
  have r1: "submit_rating ex_avg_db 1 1 five_stars 9 = (Inl InternalServerError, ex_avg_db)"
    using submit_rating_fails_at_lookup [OF f o, of 1 five_stars 9] p1 by simp
  have r2: "submit_rating ex_avg_db 2 1 five_stars 9 = (Inl InternalServerError, ex_avg_db)"
    using submit_rating_fails_at_lookup [OF f o, of 2 five_stars 9] p2 by simp
  show ?thesis by (intro conjI f o p1 p2 r1 r2)
qed

text \<open>Before the lookup the handler answers as for an unknown swap or a stranger.\<close>

lemma submit_rating_not_completed:
  assumes "find (\<lambda>r. sr_id r = swapId \<and> sr_status r = ''completed'') (swap_requests db) = None"
  shows "submit_rating db user swapId body now = (Inl CompletedSwapNotFound, db)"
  using assms by (simp add: submit_rating_def submit_rating_prepared)

lemma submit_rating_stranger:
  assumes "find (\<lambda>r. sr_id r = swapId \<and> sr_status r = ''completed'') (swap_requests db)
             = Some swapRequest"
      and "find (\<lambda>s. sk_id s = sr_skillRequestedId swapRequest) (skills db) = Some skillOwner"
      and "sr_requesterId swapRequest \<noteq> user" "sk_userId skillOwner \<noteq> user"
  shows "submit_rating db user swapId body now = (Inl NotPartOfThisSwap, db)"
  using assms by (simp add: submit_rating_def submit_rating_prepared)

section \<open>Properties of the rating aggregate\<close>

subsection \<open>Rounding\<close>







subsection \<open>The stored and the reported average\<close>


lemma AVG_mean: "AVG xs = (if xs = [] then None else Some (to_double (arithmetic_mean xs)))"
  by (simp add: AVG_def arithmetic_mean_def)











text \<open>
  Means that are not doubles: the double nearest to \<open>29 / 20\<close> lies below it, and the
  reported average is \<open>1.4\<close>, where the mean itself would be written \<open>1.5\<close>.
\<close>

lemma double_29_20: "to_double (29 / 20) = 6530219459687219 / 4503599627370496"
  by code_simp

lemma doubles_reported:
  "toFixed1 (to_double (29 / 20)) = 7 / 5"
  "toFixed1 (to_double (87 / 20)) = 43 / 10"
  "toFixed1 (to_double (51 / 20)) = 5 / 2"
  by code_simp+

lemma means_of_stars:
  "arithmetic_mean stars_29_20 = 29 / 20"
  "arithmetic_mean stars_87_20 = 87 / 20"
  "arithmetic_mean stars_51_20 = 51 / 20"
  by (simp_all add: arithmetic_mean_def stars_29_20_def stars_87_20_def stars_51_20_def
        sum_list_replicate)

lemma stars_not_empty: "stars_29_20 \<noteq> []" "stars_87_20 \<noteq> []" "stars_51_20 \<noteq> []"
  by (simp_all add: stars_29_20_def stars_87_20_def stars_51_20_def)

lemma reported_averages:
  "map_option toFixed1 (AVG stars_29_20) = Some (7 / 5)"
  "map_option toFixed1 (AVG stars_87_20) = Some (43 / 10)"
  "map_option toFixed1 (AVG stars_51_20) = Some (5 / 2)"
  by (simp_all add: AVG_mean stars_not_empty means_of_stars doubles_reported)

lemma half_up_of_the_exact_means:
  "toFixed1 (29 / 20) = 3 / 2" "toFixed1 (87 / 20) = 22 / 5" "toFixed1 (51 / 20) = 13 / 5"
  by code_simp+

section \<open>Properties of the notification relay\<close>

lemma clients_on_socket [simp]: "clients (on_socket r ws f) = clients r"
  by (simp add: on_socket_def split: option.split)

lemma sockets_on_socket:
  "sockets (on_socket r ws f) ws' = (if ws' = ws then map_option f (sockets r ws) else sockets r ws')"
  by (simp add: on_socket_def split: option.split)

lemma registry_ok_on_socket:
  assumes ok: "registry_ok r"
      and f: "\<And>s. attached (f s) = attached s \<and> pingInterval (f s) = pingInterval s
                 \<and> (readyState s \<noteq> CLOSED \<longrightarrow> readyState (f s) \<noteq> CLOSED)"
  shows "registry_ok (on_socket r ws f)"
  unfolding registry_ok_def
proof (intro allI impI)
  fix u w assume "clients (on_socket r ws f) u = Some w"
  then have "clients r u = Some w" by simp
  with ok obtain s where s: "sockets r w = Some s" "attached s = Some u" "pingInterval s"
      "readyState s \<noteq> CLOSED"
    unfolding registry_ok_def by blast
  show "\<exists>s. sockets (on_socket r ws f) w = Some s \<and> attached s = Some u \<and> pingInterval s
             \<and> readyState s \<noteq> CLOSED"
  proof (cases "w = ws")
    case True
    with s f [of s] show ?thesis by (simp add: sockets_on_socket)
  next
    case False
    with s show ?thesis by (simp add: sockets_on_socket)
  qed
qed

lemma registry_ok_heartbeat: "registry_ok r \<Longrightarrow> registry_ok (heartbeat r ws)"
  unfolding heartbeat_def
  by (rule registry_ok_on_socket) (auto simp: ws_terminate_def ws_ping_def)

lemma registry_ok_pong: "registry_ok r \<Longrightarrow> registry_ok (on_pong r ws)"
  unfolding on_pong_def
  by (rule registry_ok_on_socket) auto

lemma registry_ok_notify: "registry_ok r \<Longrightarrow> registry_ok (broadcastNotification r u n)"
  unfolding broadcastNotification_def
  by (auto split: option.split intro!: registry_ok_on_socket simp: ws_send_def)

lemma clients_handleClose:
  "clients (handleClose r ws u)
     = (if clients r u = Some ws then (clients r)(u := None) else clients r)"
  by (simp add: handleClose_def Let_def)

lemma sockets_handleClose:
  "sockets (handleClose r ws u) w
     = (if w = ws then map_option (\<lambda>s. s\<lparr>pingInterval := False\<rparr>) (sockets r ws)
        else sockets r w)"
  by (simp add: handleClose_def Let_def sockets_on_socket)

lemma registry_ok_handleClose:
  assumes ok: "\<forall>u' w. clients r u' = Some w \<and> w \<noteq> ws \<longrightarrow>
                 (\<exists>s. sockets r w = Some s \<and> attached s = Some u' \<and> pingInterval s
                      \<and> readyState s \<noteq> CLOSED)"
      and only: "\<forall>u'. clients r u' = Some ws \<longrightarrow> u' = u"
  shows "registry_ok (handleClose r ws u)"
  unfolding registry_ok_def
proof (intro allI impI)
  fix u' w assume c: "clients (handleClose r ws u) u' = Some w"
  have c': "clients r u' = Some w"
  proof (cases "clients r u = Some ws")
    case True
    with c have "((clients r)(u := None)) u' = Some w" by (simp add: clients_handleClose)
    then show ?thesis by (cases "u' = u") simp_all
  next
    case False
    with c show ?thesis by (simp add: clients_handleClose)
  qed
  have ne: "w \<noteq> ws"
  proof
    assume "w = ws"
    with c' only have u: "u' = u" by simp
    with c' \<open>w = ws\<close> have "clients r u = Some ws" by simp
    with c u show False by (simp add: clients_handleClose)
  qed
  from ok c' ne obtain s where "sockets r w = Some s" "attached s = Some u'" "pingInterval s"
      "readyState s \<noteq> CLOSED" by blast
  with ne show "\<exists>s. sockets (handleClose r ws u) w = Some s \<and> attached s = Some u' \<and> pingInterval s
             \<and> readyState s \<noteq> CLOSED"
    by (simp add: sockets_handleClose)
qed

lemma registry_ok_close: assumes ok: "registry_ok r" shows "registry_ok (on_close r ws)"
proof (cases "sockets r ws")
  case None
  with ok show ?thesis by (simp add: on_close_def)
next
  case (Some s)
  have only: "\<forall>u'. clients r u' = Some ws \<longrightarrow> attached s = Some u'"
    using ok Some unfolding registry_ok_def by fastforce
  let ?r1 = "on_socket r ws (\<lambda>s. s\<lparr>readyState := CLOSED\<rparr>)"
  have rest: "\<forall>u' w. clients ?r1 u' = Some w \<and> w \<noteq> ws \<longrightarrow>
                 (\<exists>s. sockets ?r1 w = Some s \<and> attached s = Some u' \<and> pingInterval s
                      \<and> readyState s \<noteq> CLOSED)"
    using ok unfolding registry_ok_def by (simp add: sockets_on_socket)
  show ?thesis
  proof (cases "attached s")
    case None
    with only have "\<forall>u'. clients r u' \<noteq> Some ws" by simp
    with rest have "registry_ok ?r1" unfolding registry_ok_def
      by (metis clients_on_socket)
    with Some None show ?thesis by (simp add: on_close_def)
  next
    case (Some u)
    with only have "\<forall>u'. clients ?r1 u' = Some ws \<longrightarrow> u' = u" by simp
    with rest have "registry_ok (handleClose ?r1 ws u)" by (rule registry_ok_handleClose)
    with Some \<open>sockets r ws = Some s\<close> show ?thesis by (simp add: on_close_def)
  qed
qed

lemma registry_ok_error: assumes ok: "registry_ok r" shows "registry_ok (on_error r ws)"
proof (cases "sockets r ws")
  case None
  with ok show ?thesis by (simp add: on_error_def)
next
  case (Some s)
  have only: "\<forall>u'. clients r u' = Some ws \<longrightarrow> attached s = Some u'"
    using ok Some unfolding registry_ok_def by fastforce
  have rest: "\<forall>u' w. clients r u' = Some w \<and> w \<noteq> ws \<longrightarrow>
                 (\<exists>s. sockets r w = Some s \<and> attached s = Some u' \<and> pingInterval s
                      \<and> readyState s \<noteq> CLOSED)"
    using ok unfolding registry_ok_def by simp
  show ?thesis
  proof (cases "attached s")
    case None
    with ok Some show ?thesis by (simp add: on_error_def)
  next
    case (Some u)
    with only have "\<forall>u'. clients r u' = Some ws \<longrightarrow> u' = u" by simp
    with rest have "registry_ok (handleClose r ws u)" by (rule registry_ok_handleClose)
    with Some \<open>sockets r ws = Some s\<close> show ?thesis by (simp add: on_error_def)
  qed
qed

lemma registry_ok_fresh:
  assumes ok: "registry_ok r" and fresh: "sockets r ws = None"
  shows "registry_ok (r\<lparr>sockets := (sockets r)(ws := Some new_socket)\<rparr>)"
  unfolding registry_ok_def
proof (intro allI impI)
  fix u w assume "clients (r\<lparr>sockets := (sockets r)(ws := Some new_socket)\<rparr>) u = Some w"
  then have "clients r u = Some w" by simp
  with ok obtain s where s: "sockets r w = Some s" "attached s = Some u" "pingInterval s"
      "readyState s \<noteq> CLOSED"
    unfolding registry_ok_def by blast
  with fresh have "w \<noteq> ws" by auto
  with s show "\<exists>s. sockets (r\<lparr>sockets := (sockets r)(ws := Some new_socket)\<rparr>) w = Some s
             \<and> attached s = Some u \<and> pingInterval s \<and> readyState s \<noteq> CLOSED"
    by simp
qed

lemma registry_ok_register:
  assumes ok: "registry_ok r"
      and s0: "sockets r ws = Some s0" "pingInterval s0" "readyState s0 \<noteq> CLOSED"
      and none: "\<forall>u'. clients r u' \<noteq> Some ws"
  shows "registry_ok (on_socket (r\<lparr>clients := (clients r)(u := Some ws)\<rparr>) ws
                        (\<lambda>s. s\<lparr>attached := Some u\<rparr>))"
  unfolding registry_ok_def
proof (intro allI impI)
  let ?r = "on_socket (r\<lparr>clients := (clients r)(u := Some ws)\<rparr>) ws (\<lambda>s. s\<lparr>attached := Some u\<rparr>)"
  fix u' w assume c: "clients ?r u' = Some w"
  show "\<exists>s. sockets ?r w = Some s \<and> attached s = Some u' \<and> pingInterval s
             \<and> readyState s \<noteq> CLOSED"
  proof (cases "u' = u")
    case True
    with c have "w = ws" by simp
    with True s0 show ?thesis by (simp add: sockets_on_socket)
  next
    case False
    with c have c': "clients r u' = Some w" by simp
    with none have ne: "w \<noteq> ws" by auto
    from ok c' obtain s where "sockets r w = Some s" "attached s = Some u'" "pingInterval s"
      "readyState s \<noteq> CLOSED"
      unfolding registry_ok_def by blast
    with ne show ?thesis by (simp add: sockets_on_socket)
  qed
qed

lemma ws_close_keeps:
  "attached (ws_close s) = attached s \<and> pingInterval (ws_close s) = pingInterval s
     \<and> (readyState s \<noteq> CLOSED \<longrightarrow> readyState (ws_close s) \<noteq> CLOSED)"
  by (simp add: ws_close_def)

lemma registry_ok_connection:
  assumes ok: "registry_ok r" and fresh: "sockets r ws = None"
  shows "registry_ok (on_connection r ws req)"
proof -
  let ?r0 = "r\<lparr>sockets := (sockets r)(ws := Some new_socket)\<rparr>"
  have ok0: "registry_ok ?r0" using ok fresh by (rule registry_ok_fresh)
  have rej: "registry_ok (on_socket ?r0 ws ws_close)"
    using ok0 ws_close_keeps by (rule registry_ok_on_socket)
  have none: "\<forall>u'. clients r u' \<noteq> Some ws"
    using ok fresh unfolding registry_ok_def by fastforce
  have reg: "registry_ok (on_connection r ws (Query (Some u)))" if u: "u \<noteq> []" for u
  proof -
    let ?r1 = "case clients ?r0 u of
                 Some existingConnection \<Rightarrow> on_socket ?r0 existingConnection ws_close
               | None \<Rightarrow> ?r0"
    have ok1: "registry_ok ?r1"
      using ok0 ws_close_keeps by (auto split: option.split intro: registry_ok_on_socket)
    have cl1: "clients ?r1 = clients r" by (simp split: option.split)
    have "\<exists>s0. sockets ?r1 ws = Some s0 \<and> pingInterval s0 \<and> readyState s0 \<noteq> CLOSED"
      by (simp add: sockets_on_socket new_socket_def ws_close_def split: option.split)
    then obtain s0 where s0: "sockets ?r1 ws = Some s0" "pingInterval s0" "readyState s0 \<noteq> CLOSED"
      by blast
    have none1: "\<forall>u'. clients ?r1 u' \<noteq> Some ws" using none cl1 by simp
    have "registry_ok (on_socket (?r1\<lparr>clients := (clients ?r1)(u := Some ws)\<rparr>) ws
                        (\<lambda>s. s\<lparr>attached := Some u\<rparr>))"
      using ok1 s0 none1 by (rule registry_ok_register)
    moreover have "on_connection r ws (Query (Some u))
        = on_socket (?r1\<lparr>clients := (clients ?r1)(u := Some ws)\<rparr>) ws
                        (\<lambda>s. s\<lparr>attached := Some u\<rparr>)"
      using u by (simp add: on_connection_def Let_def)
    ultimately show ?thesis by simp
  qed
  show ?thesis
  proof (cases req)
    case NoUrl
    with rej show ?thesis by (simp add: on_connection_def Let_def)
  next
    case (Query q)
    show ?thesis
    proof (cases q)
      case None
      with Query rej show ?thesis by (simp add: on_connection_def Let_def)
    next
      case (Some u)
      show ?thesis
      proof (cases "u = []")
        case True
        with Query Some rej show ?thesis by (simp add: on_connection_def Let_def)
      next
        case False
        with Query Some reg show ?thesis by simp
      qed
    qed
  qed
qed

lemma registry_ok_empty: "registry_ok empty_relay"
  by (simp add: registry_ok_def empty_relay_def)

lemma reachable_registry_ok: "reachable r \<Longrightarrow> registry_ok r"
proof (induction rule: reachable.induct)
  case start
  show ?case by (rule registry_ok_empty)
next
  case (connection r ws req)
  then show ?case by (simp add: registry_ok_connection)
next
  case (tick r ws)
  then show ?case by (simp add: registry_ok_heartbeat)
next
  case (pong r ws)
  then show ?case by (simp add: registry_ok_pong)
next
  case (close r ws)
  then show ?case by (simp add: registry_ok_close)
next
  case (error r ws)
  then show ?case by (simp add: registry_ok_error)
next
  case (notify r userId notification)
  then show ?case by (simp add: registry_ok_notify)
qed

lemma connection_replaces:
  assumes ok: "registry_ok r" and fresh: "sockets r ws = None" and u: "u \<noteq> []"
  shows "clients (on_connection r ws (Query (Some u))) = (clients r)(u := Some ws)"
    and "clients r u = Some old \<Longrightarrow>
           \<exists>s'. sockets (on_connection r ws (Query (Some u))) old = Some s'
                \<and> readyState s' \<noteq> OPEN \<and> readyState s' \<noteq> CLOSED"
proof -
  show "clients (on_connection r ws (Query (Some u))) = (clients r)(u := Some ws)"
    using u by (simp add: on_connection_def Let_def split: option.split)
next
  assume c: "clients r u = Some old"
  with ok obtain s where s: "sockets r old = Some s" "readyState s \<noteq> CLOSED"
    unfolding registry_ok_def by blast
  with fresh have ne: "old \<noteq> ws" by auto
  from s have "readyState (ws_close s) \<noteq> OPEN \<and> readyState (ws_close s) \<noteq> CLOSED"
    by (simp add: ws_close_def)
  with u c s ne
  show "\<exists>s'. sockets (on_connection r ws (Query (Some u))) old = Some s'
                \<and> readyState s' \<noteq> OPEN \<and> readyState s' \<noteq> CLOSED"
    by (simp add: on_connection_def Let_def sockets_on_socket)
qed

lemma sockets_heartbeat:
  "sockets (heartbeat r ws) ws
     = map_option (\<lambda>s. if \<not> pingInterval s then s
                        else if \<not> isAlive s then ws_terminate s
                        else ws_ping (s\<lparr>isAlive := False\<rparr>))
         (sockets r ws)"
  by (simp add: heartbeat_def sockets_on_socket)

lemma missed_heartbeat:
  assumes ok: "registry_ok r" and c: "clients r u = Some ws"
  shows "\<exists>s. sockets (heartbeat (heartbeat r ws) ws) ws = Some s \<and> readyState s = CLOSING"
    and "clients (on_close (heartbeat (heartbeat r ws) ws) ws) u = None"
    and "\<exists>s. sockets (on_close (heartbeat (heartbeat r ws) ws) ws) ws = Some s
             \<and> readyState s = CLOSED \<and> \<not> pingInterval s"
proof -
  from ok c obtain s where s: "sockets r ws = Some s" "attached s = Some u" "pingInterval s"
      "readyState s \<noteq> CLOSED"
    unfolding registry_ok_def by blast
  define s1 where "s1 = (if \<not> isAlive s then ws_terminate s else ws_ping (s\<lparr>isAlive := False\<rparr>))"
  have s1: "attached s1 = Some u" "pingInterval s1" "readyState s1 \<noteq> CLOSED" "\<not> isAlive s1"
    using s by (simp_all add: s1_def ws_terminate_def ws_ping_def)
  have h1: "sockets (heartbeat r ws) ws = Some s1"
    unfolding sockets_heartbeat using s by (simp add: s1_def)
  define s2 where "s2 = s1\<lparr>readyState := CLOSING\<rparr>"
  have "sockets (heartbeat (heartbeat r ws) ws) ws
          = map_option (\<lambda>s. if \<not> pingInterval s then s
                             else if \<not> isAlive s then ws_terminate s
                             else ws_ping (s\<lparr>isAlive := False\<rparr>))
              (sockets (heartbeat r ws) ws)"
    by (rule sockets_heartbeat)
  also have "\<dots> = Some (ws_terminate s1)"
    unfolding h1 using s1 by simp
  also have "ws_terminate s1 = s2"
    using s1 by (simp add: s2_def ws_terminate_def)
  finally have h2: "sockets (heartbeat (heartbeat r ws) ws) ws = Some s2" .
  have cl: "clients (heartbeat (heartbeat r ws) ws) = clients r"
    by (simp add: heartbeat_def)
  show "\<exists>s. sockets (heartbeat (heartbeat r ws) ws) ws = Some s \<and> readyState s = CLOSING"
    using h2 by (simp add: s2_def)
  let ?r2 = "heartbeat (heartbeat r ws) ws"
  have oc: "on_close ?r2 ws
              = handleClose (on_socket ?r2 ws (\<lambda>s. s\<lparr>readyState := CLOSED\<rparr>)) ws u"
    using h2 s1 by (simp add: on_close_def s2_def)
  show "clients (on_close ?r2 ws) u = None"
    unfolding oc using cl c by (simp add: clients_handleClose)
  show "\<exists>s. sockets (on_close ?r2 ws) ws = Some s \<and> readyState s = CLOSED \<and> \<not> pingInterval s"
    unfolding oc using h2 by (simp add: sockets_handleClose sockets_on_socket)
qed

lemma notify_absent:
  "clients r u = None \<Longrightarrow> broadcastNotification r u n = r"
  "clients r u = Some ws \<Longrightarrow> sockets r ws = Some s \<Longrightarrow> readyState s \<noteq> OPEN
     \<Longrightarrow> broadcastNotification r u n = r"
  by (simp_all add: broadcastNotification_def)

text \<open>
  C9. In every state the relay can reach, the registry holds at most one socket for a user,
  and that socket was registered for this user and is not closed. A connection of a socket
  for user \<open>u\<close> makes it the entry of \<open>u\<close>, leaves the other entries alone, and the socket
  that \<open>u\<close> had before is no longer open: its closing handshake has begun. A registered
  socket that goes through two heartbeats with no pong in between has been terminated by
  the second, and when its \<^verbatim>\<open>close\<close> event arrives it is closed and its user has no entry.
  A notification for a user with no entry, or with an entry whose socket is not open,
  changes nothing: nothing is sent and no error is raised.
\<close>

theorem registry_one_live_channel_per_user:
  assumes "reachable r"
  shows "(\<forall>u ws. clients r u = Some ws \<longrightarrow>
            (\<exists>s. sockets r ws = Some s \<and> attached s = Some u \<and> readyState s \<noteq> CLOSED))
       \<and> (\<forall>u. card {ws. clients r u = Some ws} \<le> 1)
       \<and> (\<forall>ws u. sockets r ws = None \<and> u \<noteq> [] \<longrightarrow>
            clients (on_connection r ws (Query (Some u))) = (clients r)(u := Some ws)
            \<and> (\<forall>old. clients r u = Some old \<longrightarrow>
                  (\<exists>s'. sockets (on_connection r ws (Query (Some u))) old = Some s'
                        \<and> readyState s' \<noteq> OPEN)))
       \<and> (\<forall>u ws. clients r u = Some ws \<longrightarrow>
            (\<exists>s. sockets (heartbeat (heartbeat r ws) ws) ws = Some s \<and> readyState s = CLOSING)
            \<and> clients (on_close (heartbeat (heartbeat r ws) ws) ws) u = None
            \<and> (\<exists>s. sockets (on_close (heartbeat (heartbeat r ws) ws) ws) ws = Some s
                    \<and> readyState s = CLOSED))
       \<and> (\<forall>u n. clients r u = None \<longrightarrow> broadcastNotification r u n = r)
       \<and> (\<forall>u n ws s. clients r u = Some ws \<and> sockets r ws = Some s \<and> readyState s \<noteq> OPEN \<longrightarrow>
            broadcastNotification r u n = r)"
proof -
  have ok: "registry_ok r" using assms by (rule reachable_registry_ok)
  have a: "\<forall>u ws. clients r u = Some ws \<longrightarrow>
            (\<exists>s. sockets r ws = Some s \<and> attached s = Some u \<and> readyState s \<noteq> CLOSED)"
    using ok unfolding registry_ok_def by blast
  have b: "\<forall>u. card {ws. clients r u = Some ws} \<le> 1"
  proof
    fix u
    show "card {ws. clients r u = Some ws} \<le> 1"
    proof (cases "clients r u")
      case None
      then show ?thesis by simp
    next
      case (Some w)
      then have "{ws. clients r u = Some ws} = {w}" by auto
      then show ?thesis by simp
    qed
  qed
  have c: "\<forall>ws u. sockets r ws = None \<and> u \<noteq> [] \<longrightarrow>
            clients (on_connection r ws (Query (Some u))) = (clients r)(u := Some ws)
            \<and> (\<forall>old. clients r u = Some old \<longrightarrow>
                  (\<exists>s'. sockets (on_connection r ws (Query (Some u))) old = Some s'
                        \<and> readyState s' \<noteq> OPEN))"
    using connection_replaces [OF ok] by blast
  have d: "\<forall>u ws. clients r u = Some ws \<longrightarrow>
            (\<exists>s. sockets (heartbeat (heartbeat r ws) ws) ws = Some s \<and> readyState s = CLOSING)
            \<and> clients (on_close (heartbeat (heartbeat r ws) ws) ws) u = None
            \<and> (\<exists>s. sockets (on_close (heartbeat (heartbeat r ws) ws) ws) ws = Some s
                    \<and> readyState s = CLOSED)"
    using missed_heartbeat [OF ok] by blast
  have e: "\<forall>u n. clients r u = None \<longrightarrow> broadcastNotification r u n = r"
    by (simp add: notify_absent)
  have f: "\<forall>u n ws s. clients r u = Some ws \<and> sockets r ws = Some s \<and> readyState s \<noteq> OPEN \<longrightarrow>
            broadcastNotification r u n = r"
    by (auto simp: notify_absent)
  show ?thesis by (intro conjI a b c d e f)
qed

theorem registry_one_live_channel_per_user_witness:
  "reachable ex_relay
   \<and> clients ex_relay ''7'' = Some 1
   \<and> clients (on_connection ex_relay 2 (Query (Some ''7''))) ''7'' = Some 2
   \<and> clients (on_close (heartbeat (heartbeat ex_relay 1) 1) 1) ''7'' = None
   \<and> broadcastNotification ex_relay ''8'' ''hello'' = ex_relay"
proof -
  have r: "reachable ex_relay"
    unfolding ex_relay_def
    by (rule reachable.connection [OF reachable.start]) (simp add: empty_relay_def)
  have c: "clients ex_relay ''7'' = Some 1"
    by (simp add: ex_relay_def on_connection_def empty_relay_def Let_def)
  have s: "sockets ex_relay 2 = None"
    by (simp add: ex_relay_def on_connection_def empty_relay_def Let_def sockets_on_socket)
  have n: "clients ex_relay ''8'' = None"
    by (simp add: ex_relay_def on_connection_def empty_relay_def Let_def)
  note t = registry_one_live_channel_per_user [OF r]
  have c1: "clients (on_connection ex_relay 2 (Query (Some ''7''))) ''7'' = Some 2"
    using t s by simp
  have c2: "clients (on_close (heartbeat (heartbeat ex_relay 1) 1) 1) ''7'' = None"
    using t c by blast
  have c3: "broadcastNotification ex_relay ''8'' ''hello'' = ex_relay"
    using t n by blast
  show ?thesis by (intro conjI r c c1 c2 c3)
qed

end
